theory Spec2Isabelle
  imports Main "HOL-Library.Char_ord" "HOL-Library.List_Lexorder" "HOL-Library.Code_Target_Numeral"
begin

section \<open>Text, bytes and numbers\<close>

text \<open>
  The three scripts (\<^verbatim>\<open>Get_Portfolio.py\<close>, \<^verbatim>\<open>Get_Price.py\<close>, \<^verbatim>\<open>Place_Order.py\<close>) build a
  text, sign its UTF-8 bytes and send an HTTP request. A Python \<^verbatim>\<open>str\<close> is represented
  here by the list of bytes of its UTF-8 encoding; for ASCII text that is the text itself.
  Concatenation, equality, the search for an ASCII character and the code point order of
  two texts are the same on the encoding as on the text, and \<^verbatim>\<open>bytes(s, "utf-8")\<close> is the
  identity. A Python \<^verbatim>\<open>bytes\<close> value is a list of bytes as well. Text that holds a lone
  surrogate has no encoding and is outside the model, and so are floating point numbers.
\<close>

definition is_ascii :: "char \<Rightarrow> bool" where
  "is_ascii c = ((of_char c :: nat) < 128)"

definition digit_char :: "nat \<Rightarrow> char" where
  "digit_char n = ''0123456789abcdef'' ! n"

definition upper_digit_char :: "nat \<Rightarrow> char" where
  "upper_digit_char n = ''0123456789ABCDEF'' ! n"

text \<open>\<^verbatim>\<open>str(n)\<close> for an integer: the decimal digits, with a minus sign below zero.\<close>

fun str_nat :: "nat \<Rightarrow> string" where
  "str_nat n = (if n < 10 then [digit_char n] else str_nat (n div 10) @ [digit_char (n mod 10)])"

declare str_nat.simps [simp del]

definition str_int :: "int \<Rightarrow> string" where
  "str_int i = (if i < 0 then ''-'' @ str_nat (nat (- i)) else str_nat (nat i))"

text \<open>\<^verbatim>\<open>sep.join(parts)\<close> and \<^verbatim>\<open>s.replace(a, b)\<close> for single characters.\<close>

fun join :: "string \<Rightarrow> string list \<Rightarrow> string" where
  "join sep [] = []"
| "join sep [x] = x"
| "join sep (x # y # zs) = x @ sep @ join sep (y # zs)"

definition replace_char :: "char \<Rightarrow> char \<Rightarrow> string \<Rightarrow> string" where
  "replace_char a b s = map (\<lambda>c. if c = a then b else c) s"

text \<open>
  The values of a \<^verbatim>\<open>params\<close> dictionary are scalars, turned into text by \<^verbatim>\<open>str\<close>. A
  dictionary is the list of its items in insertion order; its keys are strings.
\<close>

datatype scalar = SStr string | SInt int | SBool bool | SNone

fun py_str :: "scalar \<Rightarrow> string" where
  "py_str (SStr s) = s"
| "py_str (SInt i) = str_int i"
| "py_str (SBool b) = (if b then ''True'' else ''False'')"
| "py_str SNone = ''None''"

type_synonym params = "(string \<times> scalar) list"

subsection \<open>UTF-8, as \<^verbatim>\<open>bytes.decode("utf-8", "replace")\<close> reads it\<close>

definition is_cont :: "char \<Rightarrow> bool" where
  "is_cont c = (128 \<le> (of_char c :: nat) \<and> (of_char c :: nat) < 192)"

definition low6 :: "char \<Rightarrow> nat" where
  "low6 c = of_char c mod 64"

definition bad_second3 :: "nat \<Rightarrow> char \<Rightarrow> bool" where
  "bad_second3 b c = (if is_cont c then (if (of_char c :: nat) < 160 then b = 224 else b = 237) else True)"

definition bad_second4 :: "nat \<Rightarrow> char \<Rightarrow> bool" where
  "bad_second4 b c = (if is_cont c then (if (of_char c :: nat) < 144 then b = 240 else b = 244) else True)"

text \<open>
  The decoder yields code points. An ill-formed sequence is replaced by U+FFFD (65533):
  one replacement for a byte that cannot start a sequence, and one for the longest start
  of a sequence that the next byte, or the end of the data, breaks.
\<close>

fun utf8_decode :: "string \<Rightarrow> nat list" where
  "utf8_decode [] = []"
| "utf8_decode (b # bs) =
     (let n = (of_char b :: nat) in
      if n < 128 then n # utf8_decode bs
      else if n < 194 then 65533 # utf8_decode bs
      else if n < 224 then
        (case bs of
           [] \<Rightarrow> [65533]
         | c # cs \<Rightarrow>
             if is_cont c then ((n mod 32) * 64 + low6 c) # utf8_decode cs
             else 65533 # utf8_decode bs)
      else if n < 240 then
        (case bs of
           [] \<Rightarrow> [65533]
         | c # cs \<Rightarrow>
             if bad_second3 n c then 65533 # utf8_decode bs
             else
               (case cs of
                  [] \<Rightarrow> [65533]
                | d # ds \<Rightarrow>
                    if is_cont d then ((n mod 16) * 4096 + low6 c * 64 + low6 d) # utf8_decode ds
                    else 65533 # utf8_decode cs))
      else if n < 245 then
        (case bs of
           [] \<Rightarrow> [65533]
         | c # cs \<Rightarrow>
             if bad_second4 n c then 65533 # utf8_decode bs
             else
               (case cs of
                  [] \<Rightarrow> [65533]
                | d # ds \<Rightarrow>
                    if is_cont d then
                      (case ds of
                         [] \<Rightarrow> [65533]
                       | e # es \<Rightarrow>
                           if is_cont e then
                             ((n mod 8) * 262144 + low6 c * 4096 + low6 d * 64 + low6 e)
                               # utf8_decode es
                           else 65533 # utf8_decode ds)
                    else 65533 # utf8_decode cs))
      else 65533 # utf8_decode bs)"

definition utf8_encode1 :: "nat \<Rightarrow> string" where
  "utf8_encode1 n =
     (if n < 128 then [char_of n]
      else if n < 2048 then [char_of (192 + n div 64), char_of (128 + n mod 64)]
      else if n < 65536 then
        [char_of (224 + n div 4096), char_of (128 + (n div 64) mod 64), char_of (128 + n mod 64)]
      else
        [char_of (240 + n div 262144), char_of (128 + (n div 4096) mod 64),
         char_of (128 + (n div 64) mod 64), char_of (128 + n mod 64)])"

definition utf8_encode :: "nat list \<Rightarrow> string" where
  "utf8_encode ns = concat (map utf8_encode1 ns)"

section \<open>The library functions the signer calls\<close>

subsection \<open>\<^verbatim>\<open>urllib.parse.urlencode\<close> and \<^verbatim>\<open>quote_plus\<close>\<close>

definition always_safe :: "char \<Rightarrow> bool" where
  "always_safe c =
     (c \<in> set ''ABCDEFGHIJKLMNOPQRSTUVWXYZabcdefghijklmnopqrstuvwxyz0123456789_.-~'')"

text \<open>A byte that is neither always safe nor in \<open>safe\<close> becomes \<^verbatim>\<open>%XX\<close>, upper case.\<close>

definition quoter :: "string \<Rightarrow> char \<Rightarrow> string" where
  "quoter safe c =
     (if always_safe c \<or> (is_ascii c \<and> c \<in> set safe) then [c]
      else [CHR ''%'', upper_digit_char (of_char c div 16), upper_digit_char (of_char c mod 16)])"

definition quote :: "string \<Rightarrow> string \<Rightarrow> string" where
  "quote s safe = concat (map (quoter safe) s)"

definition quote_plus :: "string \<Rightarrow> string" where
  "quote_plus s =
     (if CHR '' '' \<in> set s then replace_char (CHR '' '') (CHR ''+'') (quote s '' '')
      else quote s [])"

definition urlencode :: "params \<Rightarrow> string" where
  "urlencode query =
     join ''&'' (map (\<lambda>(k, v). quote_plus k @ ''='' @ quote_plus (py_str v)) query)"

subsection \<open>\<^verbatim>\<open>urllib.parse.unquote_plus\<close>\<close>

definition hexval :: "char \<Rightarrow> nat option" where
  "hexval c =
     (let n = (of_char c :: nat) in
      if 48 \<le> n \<and> n \<le> 57 then Some (n - 48)
      else if 65 \<le> n \<and> n \<le> 70 then Some (n - 55)
      else if 97 \<le> n \<and> n \<le> 102 then Some (n - 87)
      else None)"

text \<open>
  \<^verbatim>\<open>unquote_to_bytes\<close> splits at \<^verbatim>\<open>%\<close> and turns the two hexadecimal digits after each
  into one byte; a \<^verbatim>\<open>%\<close> that no two such digits follow stays. The scan below does the same
  from left to right.
\<close>

fun unquote_to_bytes :: "string \<Rightarrow> string" where
  "unquote_to_bytes [] = []"
| "unquote_to_bytes [c] = [c]"
| "unquote_to_bytes [c, d] = [c, d]"
| "unquote_to_bytes (c # h # l # cs) =
     (if c = CHR ''%'' then
        (case hexval h of
           None \<Rightarrow> c # unquote_to_bytes (h # l # cs)
         | Some x \<Rightarrow>
             (case hexval l of
                None \<Rightarrow> c # unquote_to_bytes (h # l # cs)
              | Some y \<Rightarrow> char_of (16 * x + y) # unquote_to_bytes cs))
      else c # unquote_to_bytes (h # l # cs))"

text \<open>
  \<^verbatim>\<open>unquote\<close> returns a text without \<^verbatim>\<open>%\<close> as it is. Otherwise every maximal run of ASCII
  characters is turned into bytes and decoded as UTF-8 with replacement, and the
  characters between the runs stay.
\<close>

function unquote_parts :: "string \<Rightarrow> string" where
  "unquote_parts s =
     (if s = [] then []
      else if is_ascii (hd s) then
        utf8_encode (utf8_decode (unquote_to_bytes (takeWhile is_ascii s)))
          @ unquote_parts (dropWhile is_ascii s)
      else
        takeWhile (\<lambda>c. \<not> is_ascii c) s @ unquote_parts (dropWhile (\<lambda>c. \<not> is_ascii c) s))"
  by pat_completeness auto
termination
proof (relation "measure length")
  show "wf (measure length)" by simp
next
  fix s :: string
  assume "s \<noteq> []" "is_ascii (hd s)"
  then have "length (dropWhile is_ascii s) < length s"
    by (cases s) (auto simp: le_imp_less_Suc length_dropWhile_le)
  then show "(dropWhile is_ascii s, s) \<in> measure length" by simp
next
  fix s :: string
  assume "s \<noteq> []" "\<not> is_ascii (hd s)"
  then have "length (dropWhile (\<lambda>c. \<not> is_ascii c) s) < length s"
    by (cases s) (auto simp: le_imp_less_Suc length_dropWhile_le)
  then show "(dropWhile (\<lambda>c. \<not> is_ascii c) s, s) \<in> measure length" by simp
qed

declare unquote_parts.simps [simp del]

definition unquote :: "string \<Rightarrow> string" where
  "unquote s = (if CHR ''%'' \<in> set s then unquote_parts s else s)"

definition unquote_plus :: "string \<Rightarrow> string" where
  "unquote_plus s = unquote (replace_char (CHR ''+'') (CHR '' '') s)"

subsection \<open>The query component of \<^verbatim>\<open>urllib.parse.urlparse\<close>\<close>

text \<open>
  Two library functions are parameters of the model: the Ed25519 primitive of the
  \<^verbatim>\<open>cryptography\<close> package (from a 32 byte seed and a message to the signature bytes), and
  the checks \<^verbatim>\<open>urlsplit\<close> runs on a network location that holds both square brackets or a
  character outside ASCII (\<open>Some m\<close> when they raise \<^verbatim>\<open>ValueError(m)\<close>).
\<close>

record lib =
  ed25519_sign :: "string \<Rightarrow> string \<Rightarrow> string"
  netloc_error :: "string \<Rightarrow> string option"

definition c0_or_space :: "char \<Rightarrow> bool" where
  "c0_or_space c = ((of_char c :: nat) \<le> 32)"

definition ascii_alpha :: "char \<Rightarrow> bool" where
  "ascii_alpha c = (c \<in> set ''abcdefghijklmnopqrstuvwxyzABCDEFGHIJKLMNOPQRSTUVWXYZ'')"

definition scheme_char :: "char \<Rightarrow> bool" where
  "scheme_char c =
     (c \<in> set ''abcdefghijklmnopqrstuvwxyzABCDEFGHIJKLMNOPQRSTUVWXYZ0123456789+-.'')"

text \<open>
  \<^verbatim>\<open>urlsplit\<close> drops leading control characters and spaces, then every tab, carriage
  return and line feed, then a scheme and its colon.
\<close>

definition cleaned :: "string \<Rightarrow> string" where
  "cleaned url =
     filter (\<lambda>c. c \<notin> {CHR 0x09, CHR 0x0D, CHR 0x0A}) (dropWhile c0_or_space url)"

definition strip_scheme :: "string \<Rightarrow> string" where
  "strip_scheme url =
     (let pre = takeWhile (\<lambda>c. c \<noteq> CHR '':'') url in
      if CHR '':'' \<in> set url \<and> pre \<noteq> [] \<and> ascii_alpha (hd url) \<and> list_all scheme_char pre
      then drop (length pre + 1) url
      else url)"

text \<open>The fragment is cut at the first \<^verbatim>\<open>#\<close>; the query is what follows the first \<^verbatim>\<open>?\<close>
  before it.\<close>

definition query_of :: "string \<Rightarrow> string" where
  "query_of url =
     (let u = takeWhile (\<lambda>c. c \<noteq> CHR ''#'') url in
      if CHR ''?'' \<in> set u then tl (dropWhile (\<lambda>c. c \<noteq> CHR ''?'') u) else [])"

definition is_delim :: "char \<Rightarrow> bool" where
  "is_delim c = (c \<in> set ''/?#'')"

definition urlparse_query :: "lib \<Rightarrow> string \<Rightarrow> string + string" where
  "urlparse_query L url0 =
     (let url = strip_scheme (cleaned url0) in
      if take 2 url = ''//'' then
        (let netloc = takeWhile (\<lambda>c. \<not> is_delim c) (drop 2 url);
             rest = dropWhile (\<lambda>c. \<not> is_delim c) (drop 2 url);
             opening = (CHR ''['' \<in> set netloc);
             closing = (CHR '']'' \<in> set netloc)
         in if opening \<noteq> closing then Inl ''Invalid IPv6 URL''
            else if opening \<or> \<not> list_all is_ascii netloc then
              (case netloc_error L netloc of Some m \<Rightarrow> Inl m | None \<Rightarrow> Inr (query_of rest))
            else Inr (query_of rest))
      else Inr (query_of url))"

subsection \<open>\<^verbatim>\<open>json.dumps(payload, separators=(",", ":"), sort_keys=True)\<close>\<close>

datatype json =
    JNull
  | JBool bool
  | JInt int
  | JStr string
  | JList "json list"
  | JDict "(string \<times> json) list"

type_synonym payload = "(string \<times> json) list"

definition hex4 :: "nat \<Rightarrow> string" where
  "hex4 n =
     [CHR 0x5C, CHR ''u'', digit_char (n div 4096 mod 16), digit_char (n div 256 mod 16),
      digit_char (n div 16 mod 16), digit_char (n mod 16)]"

text \<open>
  With \<^verbatim>\<open>ensure_ascii\<close> (the default) a character outside the printable ASCII range is
  written \<^verbatim>\<open>\uXXXX\<close>, as a surrogate pair beyond U+FFFF.
\<close>

definition escape_cp :: "nat \<Rightarrow> string" where
  "escape_cp n =
     (if n = 0x5C then [CHR 0x5C, CHR 0x5C]
      else if n = 0x22 then [CHR 0x5C, CHR 0x22]
      else if n = 8 then [CHR 0x5C, CHR ''b'']
      else if n = 12 then [CHR 0x5C, CHR ''f'']
      else if n = 10 then [CHR 0x5C, CHR ''n'']
      else if n = 13 then [CHR 0x5C, CHR ''r'']
      else if n = 9 then [CHR 0x5C, CHR ''t'']
      else if 32 \<le> n \<and> n \<le> 126 then [char_of n]
      else if n < 65536 then hex4 n
      else hex4 (55296 + ((n - 65536) div 1024) mod 1024) @ hex4 (56320 + (n - 65536) mod 1024))"

definition encode_basestring_ascii :: "string \<Rightarrow> string" where
  "encode_basestring_ascii s = [CHR 0x22] @ concat (map escape_cp (utf8_decode s)) @ [CHR 0x22]"

text \<open>A dictionary is written with its items sorted by key; \<^verbatim>\<open>sorted\<close> is stable.\<close>

function dumps :: "json \<Rightarrow> string" where
  "dumps JNull = ''null''"
| "dumps (JBool b) = (if b then ''true'' else ''false'')"
| "dumps (JInt i) = str_int i"
| "dumps (JStr s) = encode_basestring_ascii s"
| "dumps (JList xs) = ''['' @ join '','' (map dumps xs) @ '']''"
| "dumps (JDict kvs) =
     ''{'' @ join '','' (map (\<lambda>kv. encode_basestring_ascii (fst kv) @ '':'' @ dumps (snd kv))
                              (sort_key fst kvs)) @ ''}''"
  by pat_completeness auto
termination
proof (relation "measure size")
  show "wf (measure size)" by simp
next
  fix xs :: "json list" and x
  assume "x \<in> set xs"
  then have "size x \<le> size_list size xs"
    by (rule size_list_estimation') simp
  then show "(x, JList xs) \<in> measure size" by simp
next
  fix kvs :: "(string \<times> json) list" and kv
  assume "kv \<in> set (sort_key fst kvs)"
  then have "kv \<in> set kvs" by simp
  then have "size (snd kv) \<le> size_list (size_prod (\<lambda>_. 0) size) kvs"
    by (rule size_list_estimation') (simp add: size_prod_simp)
  then show "(snd kv, JDict kvs) \<in> measure size" by simp
qed

subsection \<open>\<^verbatim>\<open>bytes.fromhex\<close>, \<^verbatim>\<open>bytes.hex\<close> and the Ed25519 key\<close>

definition is_space :: "char \<Rightarrow> bool" where
  "is_space c = (c \<in> {CHR 0x09, CHR 0x0A, CHR 0x0B, CHR 0x0C, CHR 0x0D, CHR 0x20})"

text \<open>
  \<^verbatim>\<open>bytes.fromhex\<close> reads two hexadecimal digits per byte and skips ASCII whitespace
  before a pair, not inside one. \<open>Inl p\<close> is the position of the character it refuses.
\<close>

fun fromhex_scan :: "nat \<Rightarrow> string \<Rightarrow> nat + string" where
  "fromhex_scan p [] = Inr []"
| "fromhex_scan p [c] = (if is_space c then Inr [] else if hexval c = None then Inl p else Inl (p + 1))"
| "fromhex_scan p (c # d # cs) =
     (if is_space c then fromhex_scan (p + 1) (d # cs)
      else
        (case hexval c of
           None \<Rightarrow> Inl p
         | Some x \<Rightarrow>
             (case hexval d of
                None \<Rightarrow> Inl (p + 1)
              | Some y \<Rightarrow>
                  (case fromhex_scan (p + 2) cs of
                     Inl q \<Rightarrow> Inl q
                   | Inr bs \<Rightarrow> Inr (char_of (16 * x + y) # bs)))))"

definition fromhex :: "string \<Rightarrow> nat + string" where
  "fromhex s =
     (if list_all is_ascii s then fromhex_scan 0 s else Inl (length (takeWhile is_ascii s)))"

definition hexlify :: "string \<Rightarrow> string" where
  "hexlify bs = concat (map (\<lambda>c. [digit_char (of_char c div 16), digit_char (of_char c mod 16)]) bs)"

section \<open>Request signing\<close>

text \<open>
  An exception that a script raises is a value: its class and its message. The last three
  classes are raised by the interpreter inside \<^verbatim>\<open>get_current_price_from_candle\<close>, where
  the handler only prints their text, so the text is left out.
\<close>

datatype error =
    ValueError string
  | ConnectionError string
  | RuntimeError string
  | TypeError
  | AttributeError
  | KeyError

fun err_str :: "error \<Rightarrow> string" where
  "err_str (ValueError m) = m"
| "err_str (ConnectionError m) = m"
| "err_str (RuntimeError m) = m"
| "err_str TypeError = []"
| "err_str AttributeError = []"
| "err_str KeyError = []"

subsection \<open>The signer (the same four lines in each script)\<close>

text \<open>
  \<^verbatim>\<open>bytes.fromhex(self.secret_key)\<close>, \<^verbatim>\<open>Ed25519PrivateKey.from_private_bytes\<close>, which
  refuses a seed that is not 32 bytes long, \<^verbatim>\<open>sign\<close> and \<^verbatim>\<open>hex\<close>. \<open>Inl m\<close> is the text of
  the exception raised.
\<close>

definition sign_hex :: "lib \<Rightarrow> string \<Rightarrow> string \<Rightarrow> string + string" where
  "sign_hex L secret_key signature_msg =
     (case fromhex secret_key of
        Inl p \<Rightarrow> Inl (''non-hexadecimal number found in fromhex() arg at position '' @ str_nat p)
      | Inr secret_key_bytes \<Rightarrow>
          if length secret_key_bytes \<noteq> 32 then Inl ''An Ed25519 private key is 32 bytes long''
          else Inr (hexlify (ed25519_sign L secret_key_bytes signature_msg)))"

subsection \<open>\<^verbatim>\<open>Get_Price.py\<close>: \<^verbatim>\<open>_generate_signature\<close>\<close>

definition endpoint_for_signature_price ::
  "lib \<Rightarrow> string \<Rightarrow> string \<Rightarrow> params option \<Rightarrow> string + string" where
  "endpoint_for_signature_price L method endpoint params =
     (case params of
        None \<Rightarrow> Inr endpoint
      | Some d \<Rightarrow>
          if method = ''GET'' \<and> d \<noteq> [] then
            (case urlparse_query L endpoint of
               Inl m \<Rightarrow> Inl m
             | Inr q \<Rightarrow>
                 Inr (unquote_plus (endpoint @ (if q \<noteq> [] then ''&'' else ''?'') @ urlencode d)))
          else Inr endpoint)"

definition payload_json :: "payload option \<Rightarrow> string" where
  "payload_json payload =
     (case payload of
        None \<Rightarrow> []
      | Some d \<Rightarrow> if d \<noteq> [] then dumps (JDict d) else [])"

definition signature_msg_price ::
  "lib \<Rightarrow> string \<Rightarrow> string \<Rightarrow> string \<Rightarrow> params option \<Rightarrow> payload option \<Rightarrow> string + string"
  where
  "signature_msg_price L method endpoint epoch_time params payload =
     (case endpoint_for_signature_price L method endpoint params of
        Inl m \<Rightarrow> Inl m
      | Inr endpoint_for_signature \<Rightarrow>
          Inr (method @ endpoint_for_signature @ epoch_time @ payload_json payload))"

definition generate_signature_price ::
  "lib \<Rightarrow> string \<Rightarrow> string \<Rightarrow> string \<Rightarrow> string \<Rightarrow> params option \<Rightarrow> payload option
     \<Rightarrow> error + string" where
  "generate_signature_price L secret_key method endpoint epoch_time params payload =
     (case signature_msg_price L method endpoint epoch_time params payload of
        Inl m \<Rightarrow> Inl (ValueError (''Error generating signature: '' @ m))
      | Inr signature_msg \<Rightarrow>
          (case sign_hex L secret_key signature_msg of
             Inl m \<Rightarrow> Inl (ValueError (''Error generating signature: '' @ m))
           | Inr signature \<Rightarrow> Inr signature))"

subsection \<open>\<^verbatim>\<open>Place_Order.py\<close>: \<^verbatim>\<open>_generate_signature\<close>\<close>

text \<open>
  The separator is picked from the pair \<^verbatim>\<open>('&', '?')\<close> by the truth value of
  \<^verbatim>\<open>urlparse(endpoint).query == ''\<close>. The \<^verbatim>\<open>payload\<close> argument is never read.
\<close>

definition bool_index :: "bool \<Rightarrow> nat" where
  "bool_index b = (if b then 1 else 0)"

definition endpoint_for_signature_order ::
  "lib \<Rightarrow> string \<Rightarrow> string \<Rightarrow> params option \<Rightarrow> string + string" where
  "endpoint_for_signature_order L method endpoint params =
     (case params of
        None \<Rightarrow> Inr endpoint
      | Some d \<Rightarrow>
          if method = ''GET'' \<and> d \<noteq> [] \<and> length d \<noteq> 0 then
            (case urlparse_query L endpoint of
               Inl m \<Rightarrow> Inl m
             | Inr q \<Rightarrow>
                 Inr (unquote_plus (endpoint @ [''&'', ''?''] ! bool_index (q = []) @ urlencode d)))
          else Inr endpoint)"

definition signature_msg_order ::
  "lib \<Rightarrow> string \<Rightarrow> string \<Rightarrow> string \<Rightarrow> params option \<Rightarrow> payload option \<Rightarrow> string + string"
  where
  "signature_msg_order L method endpoint epoch_time params payload =
     (case endpoint_for_signature_order L method endpoint params of
        Inl m \<Rightarrow> Inl m
      | Inr unquote_endpoint \<Rightarrow> Inr (method @ unquote_endpoint @ epoch_time))"

definition generate_signature_order ::
  "lib \<Rightarrow> string \<Rightarrow> string \<Rightarrow> string \<Rightarrow> string \<Rightarrow> params option \<Rightarrow> payload option
     \<Rightarrow> error + string" where
  "generate_signature_order L secret_key method endpoint epoch_time params payload =
     (case signature_msg_order L method endpoint epoch_time params payload of
        Inl m \<Rightarrow> Inl (ValueError (''Error generating signature: '' @ m))
      | Inr signature_msg \<Rightarrow>
          (case sign_hex L secret_key signature_msg of
             Inl m \<Rightarrow> Inl (ValueError (''Error generating signature: '' @ m))
           | Inr signature \<Rightarrow> Inr signature))"

subsection \<open>\<^verbatim>\<open>Get_Portfolio.py\<close>: \<^verbatim>\<open>_generate_signature\<close>\<close>

definition signature_msg_portfolio :: "string \<Rightarrow> string \<Rightarrow> string \<Rightarrow> string" where
  "signature_msg_portfolio method endpoint epoch_time = method @ endpoint @ epoch_time"

definition generate_signature_portfolio ::
  "lib \<Rightarrow> string \<Rightarrow> string \<Rightarrow> string \<Rightarrow> string \<Rightarrow> error + string" where
  "generate_signature_portfolio L secret_key method endpoint epoch_time =
     (case sign_hex L secret_key (signature_msg_portfolio method endpoint epoch_time) of
        Inl m \<Rightarrow> Inl (ValueError (''Error generating signature: '' @ m))
      | Inr signature \<Rightarrow> Inr signature)"

section \<open>The request dispatcher\<close>

text \<open>
  What \<^verbatim>\<open>requests.request\<close> is called with, and what comes back: an exception of the
  library, which is either an instance of \<^verbatim>\<open>requests.exceptions.RequestException\<close> (a
  failed connection, a timeout) or not, or a response. The response carries what its
  \<^verbatim>\<open>json()\<close> method does: it returns the parsed body or raises.
\<close>

record request =
  rq_method :: string
  rq_url :: string
  rq_headers :: "(string \<times> string) list"
  rq_params :: "params option"
  rq_json :: "payload option"
  rq_timeout :: nat

datatype lib_exc = RequestException string | OtherException string

record response =
  rs_status :: int
  rs_reason :: string
  rs_url :: string
  rs_body :: string
  rs_json :: "lib_exc + json"

datatype http_result = Raises lib_exc | Responds response

text \<open>
  The world outside a script: the clock, read as \<^verbatim>\<open>int(time.time() * 1000)\<close> (the \<open>n\<close>-th
  reading is \<open>now_ms n\<close>, and \<open>ticks\<close> counts the readings made), the server and network
  behind \<^verbatim>\<open>requests.request\<close>, and the requests issued so far.
\<close>

record world =
  now_ms :: "nat \<Rightarrow> int"
  ticks :: nat
  http :: "request \<Rightarrow> http_result"
  sent :: "request list"

definition time_ms :: "world \<Rightarrow> int \<times> world" where
  "time_ms w = (now_ms w (ticks w), w\<lparr>ticks := ticks w + 1\<rparr>)"

definition requests_request :: "request \<Rightarrow> world \<Rightarrow> http_result \<times> world" where
  "requests_request rq w = (http w rq, w\<lparr>sent := sent w @ [rq]\<rparr>)"

text \<open>
  \<^verbatim>\<open>Response.raise_for_status\<close> raises \<^verbatim>\<open>HTTPError\<close>, a \<^verbatim>\<open>RequestException\<close>, for a status from
  400 to 599; \<open>Some m\<close> is its message.
\<close>

definition raise_for_status :: "response \<Rightarrow> string option" where
  "raise_for_status r =
     (if 400 \<le> rs_status r \<and> rs_status r < 500 then
        Some (str_int (rs_status r) @ '' Client Error: '' @ rs_reason r @ '' for url: '' @ rs_url r)
      else if 500 \<le> rs_status r \<and> rs_status r < 600 then
        Some (str_int (rs_status r) @ '' Server Error: '' @ rs_reason r @ '' for url: '' @ rs_url r)
      else None)"

definition BASE_URL :: string where
  "BASE_URL = ''https://coinswitch.co''"

text \<open>A dictionary assignment \<^verbatim>\<open>d[k] = v\<close>: the value of an existing key is replaced, a
  new key goes last.\<close>

fun dict_set :: "'k \<Rightarrow> 'v \<Rightarrow> ('k \<times> 'v) list \<Rightarrow> ('k \<times> 'v) list" where
  "dict_set k v [] = [(k, v)]"
| "dict_set k v (p # ps) = (if fst p = k then (k, v) # ps else p # dict_set k v ps)"

text \<open>
  The two handlers that end each \<^verbatim>\<open>_send_request\<close>: a \<^verbatim>\<open>RequestException\<close> becomes the
  built-in \<^verbatim>\<open>ConnectionError\<close>, any other exception a \<^verbatim>\<open>RuntimeError\<close>.
\<close>

definition handle_request_error :: "lib_exc \<Rightarrow> error" where
  "handle_request_error x =
     (case x of
        RequestException m \<Rightarrow> ConnectionError (''Request failed: '' @ m)
      | OtherException m \<Rightarrow> RuntimeError (''Unexpected error during API request: '' @ m))"

text \<open>
  From \<^verbatim>\<open>requests.request(...)\<close> to \<^verbatim>\<open>return response.json()\<close>, under those handlers.
\<close>

definition perform :: "request \<Rightarrow> world \<Rightarrow> (error + json) \<times> world" where
  "perform rq w =
     (let (result, w') = requests_request rq w in
      (case result of
         Raises x \<Rightarrow> (Inl (handle_request_error x), w')
       | Responds r \<Rightarrow>
           (case raise_for_status r of
              Some m \<Rightarrow> (Inl (handle_request_error (RequestException m)), w')
            | None \<Rightarrow>
                (case rs_json r of
                   Inl x \<Rightarrow> (Inl (handle_request_error x), w')
                 | Inr j \<Rightarrow> (Inr j, w')))))"

subsection \<open>\<^verbatim>\<open>Get_Price.py\<close>: \<^verbatim>\<open>_send_request\<close>\<close>

definition send_request_price ::
  "lib \<Rightarrow> string \<Rightarrow> string \<Rightarrow> string \<Rightarrow> string \<Rightarrow> params option \<Rightarrow> payload option \<Rightarrow> world
     \<Rightarrow> (error + json) \<times> world" where
  "send_request_price L api_key secret_key method endpoint params payload w =
     (let url = BASE_URL @ endpoint;
          headers = [(''Content-Type'', ''application/json''), (''X-AUTH-APIKEY'', api_key)];
          (t, w1) = time_ms w;
          epoch_time = str_int t
      in case generate_signature_price L secret_key method endpoint epoch_time params payload of
           Inl e \<Rightarrow> (Inl (RuntimeError (''Unexpected error during API request: '' @ err_str e)), w1)
         | Inr signature \<Rightarrow>
             perform
               \<lparr>rq_method = method, rq_url = url,
                rq_headers =
                  dict_set ''X-AUTH-EPOCH'' epoch_time (dict_set ''X-AUTH-SIGNATURE'' signature headers),
                rq_params = (if method = ''GET'' then params else None),
                rq_json = (if method \<in> set [''POST'', ''DELETE''] then payload else None),
                rq_timeout = 10\<rparr>
               w1)"

subsection \<open>\<^verbatim>\<open>Place_Order.py\<close>: \<^verbatim>\<open>_send_request\<close> and the operations built on it\<close>

definition send_request_order ::
  "lib \<Rightarrow> string \<Rightarrow> string \<Rightarrow> string \<Rightarrow> string \<Rightarrow> params option \<Rightarrow> payload option \<Rightarrow> world
     \<Rightarrow> (error + json) \<times> world" where
  "send_request_order L api_key secret_key method endpoint params payload w =
     (let url = BASE_URL @ endpoint;
          headers = [(''Content-Type'', ''application/json''), (''X-AUTH-APIKEY'', api_key)];
          (t, w1) = time_ms w;
          epoch_time = str_int t
      in case generate_signature_order L secret_key method endpoint epoch_time params payload of
           Inl e \<Rightarrow> (Inl (ValueError (''Failed to generate signature: '' @ err_str e)), w1)
         | Inr signature \<Rightarrow>
             perform
               \<lparr>rq_method = method, rq_url = url,
                rq_headers =
                  dict_set ''X-AUTH-EPOCH'' epoch_time (dict_set ''X-AUTH-SIGNATURE'' signature headers),
                rq_params = (if method = ''GET'' then params else None),
                rq_json = (if method \<in> set [''POST'', ''DELETE''] then payload else None),
                rq_timeout = 10\<rparr>
               w1)"


definition place_order ::
  "lib \<Rightarrow> string \<Rightarrow> string \<Rightarrow> string \<Rightarrow> string \<Rightarrow> string \<Rightarrow> json \<Rightarrow> string \<Rightarrow> json \<Rightarrow> world
     \<Rightarrow> (error + json) \<times> world" where
  "place_order L api_key secret_key symbol side order_type quantity exchange price w =
     (let endpoint = ''/trade/api/v2/order'';
          payload = [(''side'', JStr side), (''symbol'', JStr symbol), (''type'', JStr order_type),
                     (''quantity'', quantity), (''exchange'', JStr exchange), (''price'', price)];
          (result, w') = send_request_order L api_key secret_key ''POST'' endpoint None (Some payload) w
      in case result of
           Inl e \<Rightarrow> (Inl (RuntimeError (''Failed to place order: '' @ err_str e)), w')
         | Inr j \<Rightarrow> (Inr j, w'))"

subsection \<open>\<^verbatim>\<open>Get_Portfolio.py\<close>: \<^verbatim>\<open>_send_request\<close>\<close>

definition send_request_portfolio ::
  "lib \<Rightarrow> string \<Rightarrow> string \<Rightarrow> string \<Rightarrow> string \<Rightarrow> world \<Rightarrow> (error + json) \<times> world" where
  "send_request_portfolio L api_key secret_key method endpoint w =
     (let url = BASE_URL @ endpoint;
          headers = [(''Content-Type'', ''application/json''), (''X-AUTH-APIKEY'', api_key)];
          (t, w1) = time_ms w;
          epoch_time = str_int t
      in case generate_signature_portfolio L secret_key method endpoint epoch_time of
           Inl e \<Rightarrow> (Inl (RuntimeError (''Unexpected error during API request: '' @ err_str e)), w1)
         | Inr signature \<Rightarrow>
             perform
               \<lparr>rq_method = method, rq_url = url,
                rq_headers =
                  dict_set ''X-AUTH-EPOCH'' epoch_time (dict_set ''X-AUTH-SIGNATURE'' signature headers),
                rq_params = None, rq_json = None, rq_timeout = 10\<rparr>
               w1)"

subsection \<open>\<^verbatim>\<open>Place_Order.py\<close>: \<^verbatim>\<open>get_current_price_from_candle\<close>\<close>








section \<open>Stand-ins for examples\<close>

text \<open>
  Concrete values for the parameters, used where a statement is evaluated on an input: a
  signing primitive that returns 64 bytes (the seed, then the start of the message), network location checks that pass, a clock, and
  three servers.
\<close>

definition example_lib :: lib where
  "example_lib =
     \<lparr>ed25519_sign = (\<lambda>seed msg. take 64 (seed @ msg @ replicate 64 (CHR 0x00))),
      netloc_error = (\<lambda>n. None)\<rparr>"

definition example_key :: string where
  "example_key = ''000102030405060708090a0b0c0d0e0f101112131415161718191a1b1c1d1e1f''"

definition spaced_key :: string where
  "spaced_key = ''000102030405060708090a0b0c0d0e0f 101112131415161718191a1b1c1d1e1f''"

definition example_clock :: "nat \<Rightarrow> int" where
  "example_clock n = 1700000000000 + int n"

definition response_401 :: "string \<Rightarrow> response" where
  "response_401 text =
     \<lparr>rs_status = 401, rs_reason = ''Unauthorized'', rs_url = ''https://coinswitch.co/x'',
      rs_body = text, rs_json = Inr (JDict [(''message'', JStr text)])\<rparr>"

definition world_401 :: "string \<Rightarrow> world" where
  "world_401 text =
     \<lparr>now_ms = example_clock, ticks = 0, http = (\<lambda>rq. Responds (response_401 text)), sent = []\<rparr>"

definition world_down :: world where
  "world_down =
     \<lparr>now_ms = example_clock, ticks = 0,
      http = (\<lambda>rq. Raises (RequestException ''connection refused'')), sent = []\<rparr>"

definition world_ok :: "json \<Rightarrow> world" where
  "world_ok j =
     \<lparr>now_ms = example_clock, ticks = 0,
      http = (\<lambda>rq. Responds \<lparr>rs_status = 200, rs_reason = ''OK'', rs_url = rq_url rq,
                               rs_body = dumps j, rs_json = Inr j\<rparr>),
      sent = []\<rparr>"


section \<open>Notions used in the statements\<close>



text \<open>The query pairs as they are, neither quoted nor decoded.\<close>

definition raw_query :: "params \<Rightarrow> string" where
  "raw_query d = join ''&'' (map (\<lambda>(k, v). k @ ''='' @ py_str v) d)"

definition ascii_params :: "params \<Rightarrow> bool" where
  "ascii_params d =
     list_all (\<lambda>kv. list_all is_ascii (fst kv) \<and> list_all is_ascii (py_str (snd kv))) d"


definition plain_endpoint :: "string \<Rightarrow> bool" where
  "plain_endpoint endpoint =
     (list_all is_ascii endpoint \<and> CHR ''%'' \<notin> set endpoint \<and> CHR ''+'' \<notin> set endpoint)"

definition separator :: "string \<Rightarrow> string" where
  "separator q = (if q = [] then ''?'' else ''&'')"

definition new_requests :: "world \<Rightarrow> world \<Rightarrow> request list" where
  "new_requests w w' = drop (length (sent w)) (sent w')"

definition header :: "request \<Rightarrow> string \<Rightarrow> string option" where
  "header rq name = map_of (rq_headers rq) name"

definition upper_key :: string where
  "upper_key = ''000102030405060708090A0B0C0D0E0F101112131415161718191A1B1C1D1E1F''"

definition example_seed :: string where
  "example_seed = map char_of [0 ..< 32 :: nat]"


text \<open>
  A request \<open>rq\<close> is signed with the epoch string: its \<^verbatim>\<open>X-AUTH-EPOCH\<close> header is the
  string, and its \<^verbatim>\<open>X-AUTH-SIGNATURE\<close> header is what the signer returns for the message
  that has the string between \<open>before\<close> and \<open>after\<close>.
\<close>

definition signed_with_epoch ::
  "lib \<Rightarrow> string \<Rightarrow> request \<Rightarrow> string \<Rightarrow> string \<Rightarrow> string \<Rightarrow> bool" where
  "signed_with_epoch L secret_key rq before epoch_time after =
     (header rq ''X-AUTH-EPOCH'' = Some epoch_time \<and>
      map_option Inr (header rq ''X-AUTH-SIGNATURE'')
        = Some (sign_hex L secret_key (before @ epoch_time @ after)))"

text \<open>
  One call of a dispatcher, from the world \<open>w\<close> to the world \<open>w'\<close>: the clock is read once,
  and either no request is issued or one request is, signed with the string of that
  reading. \<open>before\<close> is the text the builder puts before the epoch, or the failure of the
  builder.
\<close>

definition epoch_used_once ::
  "lib \<Rightarrow> string \<Rightarrow> world \<Rightarrow> world \<Rightarrow> string + string \<Rightarrow> string \<Rightarrow> bool" where
  "epoch_used_once L secret_key w w' before after =
     (ticks w' = ticks w + 1 \<and>
      (sent w' = sent w \<or>
       (\<exists>rq b. sent w' = sent w @ [rq] \<and> before = Inr b
           \<and> signed_with_epoch L secret_key rq b (str_int (now_ms w (ticks w))) after)))"



section \<open>The two message builders\<close>

lemma endpoint_for_signature_same:
  "endpoint_for_signature_order L method endpoint params
     = endpoint_for_signature_price L method endpoint params"
  by (auto simp: endpoint_for_signature_order_def endpoint_for_signature_price_def bool_index_def
      split: option.splits sum.splits)

lemma order_msg_ignores_payload:
  "signature_msg_order L method endpoint epoch_time params payload
     = signature_msg_order L method endpoint epoch_time params None"
  by (simp add: signature_msg_order_def)

lemma order_signature_ignores_payload:
  "generate_signature_order L secret_key method endpoint epoch_time params payload
     = generate_signature_order L secret_key method endpoint epoch_time params None"
  by (simp add: generate_signature_order_def signature_msg_order_def)

text \<open>
  C9. For a GET request without payload the builder of \<^verbatim>\<open>Get_Price.py\<close> and the builder of
  \<^verbatim>\<open>Place_Order.py\<close> produce the same signed message, and with the same key the same
  signature or the same failure, for every endpoint, parameter dictionary and epoch
  string: choosing the separator by the truth of the query and by indexing the pair
  \<^verbatim>\<open>('&', '?')\<close> is the same choice.
\<close>

theorem C9_get_builders_agree:
  "method = ''GET'' \<Longrightarrow>
     signature_msg_price L method endpoint epoch_time params None
       = signature_msg_order L method endpoint epoch_time params None
     \<and> generate_signature_price L secret_key method endpoint epoch_time params None
       = generate_signature_order L secret_key method endpoint epoch_time params None"
  by (simp add: signature_msg_price_def signature_msg_order_def generate_signature_price_def
      generate_signature_order_def endpoint_for_signature_same payload_json_def split: sum.splits)

lemma candles_message:
  "signature_msg_order example_lib ''GET'' ''/trade/api/v2/candles?x=1'' ''1700000000000''
     (Some [(''symbol'', SStr ''BTC/INR''), (''interval'', SStr ''1'')]) None
     = Inr ''GET/trade/api/v2/candles?x=1&symbol=BTC/INR&interval=11700000000000''"
  by code_simp

theorem C9_get_builders_agree_witness:
  "signature_msg_price example_lib ''GET'' ''/trade/api/v2/candles?x=1'' ''1700000000000''
     (Some [(''symbol'', SStr ''BTC/INR''), (''interval'', SStr ''1'')]) None
     = Inr ''GET/trade/api/v2/candles?x=1&symbol=BTC/INR&interval=11700000000000''
   \<and> generate_signature_price example_lib example_key ''GET'' ''/trade/api/v2/candles?x=1''
       ''1700000000000'' (Some [(''symbol'', SStr ''BTC/INR''), (''interval'', SStr ''1'')]) None
     = generate_signature_order example_lib example_key ''GET'' ''/trade/api/v2/candles?x=1''
       ''1700000000000'' (Some [(''symbol'', SStr ''BTC/INR''), (''interval'', SStr ''1'')]) None"
  using C9_get_builders_agree [of "''GET''" example_lib "''/trade/api/v2/candles?x=1''"
      "''1700000000000''" "Some [(''symbol'', SStr ''BTC/INR''), (''interval'', SStr ''1'')]"
      example_key]
  by (simp add: candles_message)

section \<open>One call of a dispatcher\<close>




lemma perform_sent: "sent (snd (perform rq w)) = sent w @ [rq]"
  by (simp add: perform_def requests_request_def split: http_result.splits option.splits sum.splits)

lemma perform_ticks: "ticks (snd (perform rq w)) = ticks w"
  by (simp add: perform_def requests_request_def split: http_result.splits option.splits sum.splits)

lemma send_request_price_unsigned:
  "generate_signature_price L secret_key method endpoint (str_int (now_ms w (ticks w))) params
       payload = Inl e \<Longrightarrow>
     send_request_price L api_key secret_key method endpoint params payload w
       = (Inl (RuntimeError (''Unexpected error during API request: '' @ err_str e)),
          w\<lparr>ticks := ticks w + 1\<rparr>)"
  by (simp add: send_request_price_def Let_def time_ms_def)

lemma send_request_price_signed:
  "generate_signature_price L secret_key method endpoint (str_int (now_ms w (ticks w))) params
       payload = Inr sg \<Longrightarrow>
     send_request_price L api_key secret_key method endpoint params payload w
       = perform
           \<lparr>rq_method = method, rq_url = BASE_URL @ endpoint,
            rq_headers =
              [(''Content-Type'', ''application/json''), (''X-AUTH-APIKEY'', api_key),
               (''X-AUTH-SIGNATURE'', sg), (''X-AUTH-EPOCH'', str_int (now_ms w (ticks w)))],
            rq_params = (if method = ''GET'' then params else None),
            rq_json = (if method \<in> set [''POST'', ''DELETE''] then payload else None),
            rq_timeout = 10\<rparr>
           (w\<lparr>ticks := ticks w + 1\<rparr>)"
  by (simp add: send_request_price_def Let_def time_ms_def)

lemma send_request_order_unsigned:
  "generate_signature_order L secret_key method endpoint (str_int (now_ms w (ticks w))) params
       payload = Inl e \<Longrightarrow>
     send_request_order L api_key secret_key method endpoint params payload w
       = (Inl (ValueError (''Failed to generate signature: '' @ err_str e)),
          w\<lparr>ticks := ticks w + 1\<rparr>)"
  by (simp add: send_request_order_def Let_def time_ms_def)

lemma send_request_order_signed:
  "generate_signature_order L secret_key method endpoint (str_int (now_ms w (ticks w))) params
       payload = Inr sg \<Longrightarrow>
     send_request_order L api_key secret_key method endpoint params payload w
       = perform
           \<lparr>rq_method = method, rq_url = BASE_URL @ endpoint,
            rq_headers =
              [(''Content-Type'', ''application/json''), (''X-AUTH-APIKEY'', api_key),
               (''X-AUTH-SIGNATURE'', sg), (''X-AUTH-EPOCH'', str_int (now_ms w (ticks w)))],
            rq_params = (if method = ''GET'' then params else None),
            rq_json = (if method \<in> set [''POST'', ''DELETE''] then payload else None),
            rq_timeout = 10\<rparr>
           (w\<lparr>ticks := ticks w + 1\<rparr>)"
  by (simp add: send_request_order_def Let_def time_ms_def)

lemma send_request_portfolio_unsigned:
  "generate_signature_portfolio L secret_key method endpoint (str_int (now_ms w (ticks w)))
       = Inl e \<Longrightarrow>
     send_request_portfolio L api_key secret_key method endpoint w
       = (Inl (RuntimeError (''Unexpected error during API request: '' @ err_str e)),
          w\<lparr>ticks := ticks w + 1\<rparr>)"
  by (simp add: send_request_portfolio_def Let_def time_ms_def)

lemma send_request_portfolio_signed:
  "generate_signature_portfolio L secret_key method endpoint (str_int (now_ms w (ticks w)))
       = Inr sg \<Longrightarrow>
     send_request_portfolio L api_key secret_key method endpoint w
       = perform
           \<lparr>rq_method = method, rq_url = BASE_URL @ endpoint,
            rq_headers =
              [(''Content-Type'', ''application/json''), (''X-AUTH-APIKEY'', api_key),
               (''X-AUTH-SIGNATURE'', sg), (''X-AUTH-EPOCH'', str_int (now_ms w (ticks w)))],
            rq_params = None, rq_json = None, rq_timeout = 10\<rparr>
           (w\<lparr>ticks := ticks w + 1\<rparr>)"
  by (simp add: send_request_portfolio_def Let_def time_ms_def)

text \<open>A key that decodes to 32 bytes signs every message.\<close>

lemma sign_hex_ok:
  "fromhex secret_key = Inr seed \<Longrightarrow> length seed = 32 \<Longrightarrow>
     sign_hex L secret_key signature_msg = Inr (hexlify (ed25519_sign L seed signature_msg))"
  by (simp add: sign_hex_def)

lemma example_keys:
  "fromhex example_key = Inr example_seed"
  "fromhex upper_key = Inr example_seed"
  "fromhex spaced_key = Inr example_seed"
  by code_simp+

lemma example_seed_length: "length example_seed = 32"
  by (simp add: example_seed_def)

lemma example_clock_text:
  "str_int (example_clock 0) = ''1700000000000''"
  "str_int (example_clock 1) = ''1700000000001''"
  by (simp_all add: example_clock_def str_int_def str_nat.simps digit_char_def)

lemma example_world_clocks:
  "now_ms (world_ok j) = example_clock" "ticks (world_ok j) = 0" "sent (world_ok j) = []"
  "now_ms world_down = example_clock" "ticks world_down = 0" "sent world_down = []"
  "now_ms (world_401 body) = example_clock" "ticks (world_401 body) = 0"
  "sent (world_401 body) = []"
  by (simp_all add: world_ok_def world_down_def world_401_def)


lemma example_signatures:
  "generate_signature_price example_lib example_key ''GET'' ''/x'' t None None
     = Inr (hexlify (ed25519_sign example_lib example_seed (''GET/x'' @ t)))"
  "generate_signature_price example_lib upper_key ''GET'' ''/x'' t None None
     = Inr (hexlify (ed25519_sign example_lib example_seed (''GET/x'' @ t)))"
  "generate_signature_price example_lib spaced_key ''GET'' ''/x'' t None None
     = Inr (hexlify (ed25519_sign example_lib example_seed (''GET/x'' @ t)))"
  "generate_signature_portfolio example_lib example_key ''GET'' ''/x'' t
     = Inr (hexlify (ed25519_sign example_lib example_seed (''GET/x'' @ t)))"
  "generate_signature_portfolio example_lib spaced_key ''GET'' ''/x'' t
     = Inr (hexlify (ed25519_sign example_lib example_seed (''GET/x'' @ t)))"
  by (simp_all add: generate_signature_price_def signature_msg_price_def
      endpoint_for_signature_price_def payload_json_def generate_signature_portfolio_def
      signature_msg_portfolio_def sign_hex_ok [OF example_keys(1) example_seed_length]
      sign_hex_ok [OF example_keys(2) example_seed_length]
      sign_hex_ok [OF example_keys(3) example_seed_length])

section \<open>Requests and parameters\<close>

lemma new_requests_price:
  "new_requests w (snd (send_request_price L api_key secret_key method endpoint params payload w)) = []
   \<or> (\<exists>rq. new_requests w (snd (send_request_price L api_key secret_key method endpoint params payload w)) = [rq]
         \<and> rq_params rq = (if method = ''GET'' then params else None))"
proof (cases "generate_signature_price L secret_key method endpoint
                (str_int (now_ms w (ticks w))) params payload")
  case (Inl e)
  then show ?thesis by (simp add: send_request_price_unsigned new_requests_def)
next
  case (Inr sg)
  then show ?thesis by (simp add: send_request_price_signed new_requests_def perform_sent)
qed

lemma new_requests_order:
  "new_requests w (snd (send_request_order L api_key secret_key method endpoint params payload w)) = []
   \<or> (\<exists>rq. new_requests w (snd (send_request_order L api_key secret_key method endpoint params payload w)) = [rq]
         \<and> rq_params rq = (if method = ''GET'' then params else None))"
proof (cases "generate_signature_order L secret_key method endpoint
                (str_int (now_ms w (ticks w))) params payload")
  case (Inl e)
  then show ?thesis by (simp add: send_request_order_unsigned new_requests_def)
next
  case (Inr sg)
  then show ?thesis by (simp add: send_request_order_signed new_requests_def perform_sent)
qed

lemma endpoint_price_not_get:
  "method \<noteq> ''GET'' \<Longrightarrow> endpoint_for_signature_price L method endpoint params = Inr endpoint"
  by (simp add: endpoint_for_signature_price_def split: option.splits)

text \<open>
  C10. For a method other than GET the \<^verbatim>\<open>params\<close> argument has no effect: both builders
  produce the message, and both signers the signature, that they produce without
  \<^verbatim>\<open>params\<close>, and the request that either dispatcher hands to \<^verbatim>\<open>requests.request\<close>
  carries no \<^verbatim>\<open>params\<close>.
\<close>

theorem C10_params_unused_unless_get:
  "method \<noteq> ''GET'' \<Longrightarrow>
     signature_msg_price L method endpoint epoch_time params payload
       = signature_msg_price L method endpoint epoch_time None payload
     \<and> generate_signature_price L secret_key method endpoint epoch_time params payload
       = generate_signature_price L secret_key method endpoint epoch_time None payload
     \<and> signature_msg_order L method endpoint epoch_time params payload
       = signature_msg_order L method endpoint epoch_time None payload
     \<and> generate_signature_order L secret_key method endpoint epoch_time params payload
       = generate_signature_order L secret_key method endpoint epoch_time None payload
     \<and> list_all (\<lambda>rq. rq_params rq = None)
          (new_requests w
             (snd (send_request_price L api_key secret_key method endpoint params payload w)))
     \<and> list_all (\<lambda>rq. rq_params rq = None)
          (new_requests w
             (snd (send_request_order L api_key secret_key method endpoint params payload w)))"
proof -
  assume m: "method \<noteq> ''GET''"
  have e: "endpoint_for_signature_price L method endpoint params
             = endpoint_for_signature_price L method endpoint None"
    using m by (simp add: endpoint_price_not_get)
  have p1: "signature_msg_price L method endpoint epoch_time params payload
       = signature_msg_price L method endpoint epoch_time None payload"
    by (simp add: signature_msg_price_def e)
  have o1: "signature_msg_order L method endpoint epoch_time params payload
       = signature_msg_order L method endpoint epoch_time None payload"
    by (simp add: signature_msg_order_def endpoint_for_signature_same e)
  have p2: "generate_signature_price L secret_key method endpoint epoch_time params payload
       = generate_signature_price L secret_key method endpoint epoch_time None payload"
    by (simp add: generate_signature_price_def p1)
  have o2: "generate_signature_order L secret_key method endpoint epoch_time params payload
       = generate_signature_order L secret_key method endpoint epoch_time None payload"
    by (simp add: generate_signature_order_def o1)
  have r1: "list_all (\<lambda>rq. rq_params rq = None)
          (new_requests w
             (snd (send_request_price L api_key secret_key method endpoint params payload w)))"
    using new_requests_price [of w L api_key secret_key "method" endpoint params payload] m by auto
  have r2: "list_all (\<lambda>rq. rq_params rq = None)
          (new_requests w
             (snd (send_request_order L api_key secret_key method endpoint params payload w)))"
    using new_requests_order [of w L api_key secret_key "method" endpoint params payload] m by auto
  show ?thesis using p1 p2 o1 o2 r1 r2 by simp
qed

lemma post_message_with_params:
  "signature_msg_price example_lib ''POST'' ''/trade/api/v2/order'' ''1700000000000''
     (Some [(''a'', SStr ''1'')]) (Some [(''b'', JInt 2)])
     = Inr (''POST/trade/api/v2/order1700000000000'' @ ''{\"b\":2}'')"
  by code_simp

lemma post_signature:
  "generate_signature_price example_lib example_key ''POST'' ''/trade/api/v2/order''
     ''1700000000000'' (Some [(''a'', SStr ''1'')]) (Some [(''b'', JInt 2)])
     = Inr (hexlify (ed25519_sign example_lib example_seed
              (''POST/trade/api/v2/order1700000000000'' @ ''{\"b\":2}'')))"
  by (simp add: generate_signature_price_def post_message_with_params
      sign_hex_ok [OF example_keys(1) example_seed_length])

lemma post_request_sent:
  "map rq_params
     (new_requests (world_ok JNull)
        (snd (send_request_price example_lib ''k'' example_key ''POST'' ''/trade/api/v2/order''
                (Some [(''a'', SStr ''1'')]) (Some [(''b'', JInt 2)]) (world_ok JNull))))
     = [None]"
  by (simp add: send_request_price_signed example_world_clocks example_clock_text post_signature
      perform_sent new_requests_def)

theorem C10_params_unused_unless_get_witness:
  "signature_msg_price example_lib ''POST'' ''/trade/api/v2/order'' ''1700000000000'' None
     (Some [(''b'', JInt 2)])
     = Inr (''POST/trade/api/v2/order1700000000000'' @ ''{\"b\":2}'')
   \<and> map rq_params
       (new_requests (world_ok JNull)
          (snd (send_request_price example_lib ''k'' example_key ''POST'' ''/trade/api/v2/order''
                  (Some [(''a'', SStr ''1'')]) (Some [(''b'', JInt 2)]) (world_ok JNull))))
     = [None]
   \<and> generate_signature_order example_lib example_key ''POST'' ''/trade/api/v2/order''
       ''1700000000000'' (Some [(''a'', SStr ''1'')]) (Some [(''b'', JInt 2)])
     = generate_signature_order example_lib example_key ''POST'' ''/trade/api/v2/order''
       ''1700000000000'' None (Some [(''b'', JInt 2)])"
  using C10_params_unused_unless_get [of "''POST''" example_lib "''/trade/api/v2/order''"
      "''1700000000000''" "Some [(''a'', SStr ''1'')]" "Some [(''b'', JInt 2)]" example_key
      "world_ok JNull" "''k''"]
  by (simp add: post_message_with_params post_request_sent)

section \<open>The payload in the signed message\<close>

text \<open>
  C1. The claim: for every request that carries a payload, and for every POST order
  placement in particular, the builder appends the canonical JSON text of the payload
  (keys sorted, no whitespace) after the epoch. The builder of \<^verbatim>\<open>Get_Price.py\<close> does so;
  the builder of \<^verbatim>\<open>Place_Order.py\<close>, the script that places orders, produces the same
  message whatever the payload is. For the payload \<^verbatim>\<open>{"b":2,"a":1}\<close> it returns the
  message without any JSON text, where the other builder appends \<^verbatim>\<open>{"a":1,"b":2}\<close> for
  either order of the keys.
\<close>

theorem C1_order_builder_omits_payload:
  "signature_msg_order L method endpoint epoch_time params payload
     = signature_msg_order L method endpoint epoch_time params None
   \<and> signature_msg_order example_lib ''POST'' ''/trade/api/v2/order'' ''1700000000000'' None
       (Some [(''b'', JInt 2), (''a'', JInt 1)])
     = Inr ''POST/trade/api/v2/order1700000000000''
   \<and> signature_msg_price example_lib ''POST'' ''/trade/api/v2/order'' ''1700000000000'' None
       (Some [(''b'', JInt 2), (''a'', JInt 1)])
     = Inr (''POST/trade/api/v2/order1700000000000'' @ ''{\"a\":1,\"b\":2}'')
   \<and> signature_msg_price example_lib ''POST'' ''/trade/api/v2/order'' ''1700000000000'' None
       (Some [(''a'', JInt 1), (''b'', JInt 2)])
     = Inr (''POST/trade/api/v2/order1700000000000'' @ ''{\"a\":1,\"b\":2}'')"
proof -
  have 1: "signature_msg_order L method endpoint epoch_time params payload
     = signature_msg_order L method endpoint epoch_time params None"
    by (simp add: signature_msg_order_def)
  have 2: "signature_msg_order example_lib ''POST'' ''/trade/api/v2/order'' ''1700000000000'' None
       (Some [(''b'', JInt 2), (''a'', JInt 1)])
     = Inr ''POST/trade/api/v2/order1700000000000''"
    by code_simp
  have 3: "signature_msg_price example_lib ''POST'' ''/trade/api/v2/order'' ''1700000000000'' None
       (Some [(''b'', JInt 2), (''a'', JInt 1)])
     = Inr (''POST/trade/api/v2/order1700000000000'' @ ''{\"a\":1,\"b\":2}'')"
    by code_simp
  have 4: "signature_msg_price example_lib ''POST'' ''/trade/api/v2/order'' ''1700000000000'' None
       (Some [(''a'', JInt 1), (''b'', JInt 2)])
     = Inr (''POST/trade/api/v2/order1700000000000'' @ ''{\"a\":1,\"b\":2}'')"
    by code_simp
  show ?thesis using 1 2 3 4 by simp
qed

section \<open>Quoting and unquoting\<close>

lemma hexval_upper_digit_all: "\<forall>n\<in>{0..<16}. hexval (upper_digit_char n) = Some n"
  by code_simp

lemma hexval_upper_digit: "n < 16 \<Longrightarrow> hexval (upper_digit_char n) = Some n"
  using hexval_upper_digit_all by simp

lemma upper_digit_ascii_all:
  "\<forall>n\<in>{0..<16}. is_ascii (upper_digit_char n) \<and> upper_digit_char n \<noteq> CHR ''+''"
  by code_simp

lemma upper_digit_ascii:
  "n < 16 \<Longrightarrow> is_ascii (upper_digit_char n) \<and> upper_digit_char n \<noteq> CHR ''+''"
  using upper_digit_ascii_all by simp

lemma of_char_div_16: "(of_char (c :: char) :: nat) div 16 < 16"
  by (rule less_mult_imp_div_less) simp

lemma char_of_split: "char_of (16 * ((of_char c :: nat) div 16) + of_char c mod 16) = c"
  by simp

lemma always_safe_props:
  "always_safe c \<Longrightarrow> is_ascii c \<and> c \<noteq> CHR ''%'' \<and> c \<noteq> CHR ''+'' \<and> c \<noteq> CHR '' ''"
  by (auto simp: always_safe_def is_ascii_def)

lemma unquote_to_bytes_plain:
  "c \<noteq> CHR ''%'' \<Longrightarrow> unquote_to_bytes (c # xs) = c # unquote_to_bytes xs"
proof (cases xs)
  case Nil
  then show ?thesis by simp
next
  case (Cons d ys)
  assume "c \<noteq> CHR ''%''"
  then show ?thesis using Cons by (cases ys) simp_all
qed

lemma unquote_to_bytes_escape:
  "hexval h = Some x \<Longrightarrow> hexval l = Some y \<Longrightarrow>
     unquote_to_bytes (CHR ''%'' # h # l # xs) = char_of (16 * x + y) # unquote_to_bytes xs"
  by simp

lemma unquote_quoter:
  "unquote_to_bytes (quoter '' '' c @ rest) = c # unquote_to_bytes rest"
proof (cases "always_safe c \<or> (is_ascii c \<and> c \<in> set '' '')")
  case True
  then have "c \<noteq> CHR ''%''" using always_safe_props by auto
  then show ?thesis using True by (simp add: quoter_def unquote_to_bytes_plain)
next
  case False
  have "unquote_to_bytes (CHR ''%'' # upper_digit_char (of_char c div 16)
           # upper_digit_char (of_char c mod 16) # rest)
        = char_of (16 * ((of_char c :: nat) div 16) + of_char c mod 16) # unquote_to_bytes rest"
    by (rule unquote_to_bytes_escape) (simp_all add: hexval_upper_digit of_char_div_16)
  then have e: "unquote_to_bytes (CHR ''%'' # upper_digit_char (of_char c div 16)
           # upper_digit_char (of_char c mod 16) # rest) = c # unquote_to_bytes rest"
    by (simp only: char_of_split)
  have "quoter '' '' c = [CHR ''%'', upper_digit_char (of_char c div 16),
           upper_digit_char (of_char c mod 16)]"
    using False by (simp add: quoter_def)
  then show ?thesis using e by (simp del: unquote_to_bytes.simps)
qed

lemma unquote_quote:
  "unquote_to_bytes (quote v '' '' @ rest) = v @ unquote_to_bytes rest"
proof (induction v)
  case Nil
  then show ?case by (simp add: quote_def)
next
  case (Cons c v)
  have "unquote_to_bytes (quote (c # v) '' '' @ rest)
          = unquote_to_bytes (quoter '' '' c @ (quote v '' '' @ rest))"
    by (simp add: quote_def)
  also have "\<dots> = c # unquote_to_bytes (quote v '' '' @ rest)"
    by (rule unquote_quoter)
  finally show ?case using Cons by simp
qed

lemma quoter_chars:
  "x \<in> set (quoter safe c) \<Longrightarrow> is_ascii x \<and> (CHR ''+'' \<notin> set safe \<longrightarrow> x \<noteq> CHR ''+'')"
proof (cases "always_safe c \<or> (is_ascii c \<and> c \<in> set safe)")
  case True
  assume "x \<in> set (quoter safe c)"
  then have "x = c" using True by (simp add: quoter_def)
  then show ?thesis using True always_safe_props by auto
next
  case False
  assume "x \<in> set (quoter safe c)"
  then have "x = CHR ''%'' \<or> x = upper_digit_char (of_char c div 16)
      \<or> x = upper_digit_char (of_char c mod 16)"
    using False by (simp add: quoter_def)
  then show ?thesis
    using upper_digit_ascii [of "of_char c div 16"] upper_digit_ascii [of "of_char c mod 16"]
      of_char_div_16 [of c]
    by (auto simp: is_ascii_def)
qed

lemma quote_chars:
  "x \<in> set (quote v safe) \<Longrightarrow> is_ascii x \<and> (CHR ''+'' \<notin> set safe \<longrightarrow> x \<noteq> CHR ''+'')"
  using quoter_chars by (fastforce simp: quote_def)

lemma quoter_no_space: "c \<noteq> CHR '' '' \<Longrightarrow> quoter [] c = quoter '' '' c"
  by (simp add: quoter_def)

lemma quote_no_space: "CHR '' '' \<notin> set v \<Longrightarrow> quote v [] = quote v '' ''"
  by (induction v) (auto simp: quote_def quoter_no_space)

lemma replace_absent: "a \<notin> set s \<Longrightarrow> replace_char a b s = s"
  by (induction s) (auto simp: replace_char_def)

lemma replace_back: "b \<notin> set s \<Longrightarrow> replace_char b a (replace_char a b s) = s"
  by (induction s) (auto simp: replace_char_def)

lemma replace_append: "replace_char a b (s @ t) = replace_char a b s @ replace_char a b t"
  by (simp add: replace_char_def)

lemma plus_free_quote: "CHR ''+'' \<notin> set (quote v '' '')"
  using quote_chars [of "CHR ''+''" v "'' ''"] by auto

lemma unplus_quote_plus: "replace_char (CHR ''+'') (CHR '' '') (quote_plus v) = quote v '' ''"
proof (cases "CHR '' '' \<in> set v")
  case True
  then show ?thesis by (simp add: quote_plus_def replace_back plus_free_quote)
next
  case False
  then show ?thesis
    using plus_free_quote [of v] by (simp add: quote_plus_def quote_no_space replace_absent)
qed

lemma quote_plus_ascii: "list_all is_ascii (quote_plus v)"
proof -
  have "list_all is_ascii (quote v safe)" for safe
    using quote_chars [of _ v safe] by (auto simp: list_all_iff)
  then show ?thesis by (auto simp: quote_plus_def replace_char_def list_all_iff is_ascii_def)
qed

lemma unquote_to_bytes_no_percent:
  "CHR ''%'' \<notin> set a \<Longrightarrow> unquote_to_bytes (a @ rest) = a @ unquote_to_bytes rest"
proof (induction a)
  case Nil
  then show ?case by simp
next
  case (Cons c a)
  then have "c \<noteq> CHR ''%''" by auto
  then have "unquote_to_bytes (c # (a @ rest)) = c # unquote_to_bytes (a @ rest)"
    by (rule unquote_to_bytes_plain)
  then show ?case using Cons by simp
qed

lemma replace_cons:
  "replace_char a b (c # s) = (if c = a then b else c) # replace_char a b s"
  by (simp add: replace_char_def)

lemma ascii_signs: "is_ascii (CHR ''='')" "is_ascii (CHR ''&'')" "is_ascii (CHR ''?'')"
  by (simp_all add: is_ascii_def)

lemma unquote_pair:
  "unquote_to_bytes
     (replace_char (CHR ''+'') (CHR '' '') (quote_plus k @ ''='' @ quote_plus v) @ rest)
     = k @ ''='' @ v @ unquote_to_bytes rest"
proof -
  have "replace_char (CHR ''+'') (CHR '' '') (quote_plus k @ ''='' @ quote_plus v) @ rest
          = quote k '' '' @ (CHR ''='' # (quote v '' '' @ rest))"
    by (simp add: replace_append replace_cons unplus_quote_plus)
  then show ?thesis
    by (simp add: unquote_quote unquote_to_bytes_plain del: unquote_to_bytes.simps)
qed

lemma unquote_urlencode:
  "unquote_to_bytes (replace_char (CHR ''+'') (CHR '' '') (urlencode d)) = raw_query d"
proof (induction d rule: induct_list012)
  case 1
  then show ?case by (simp add: urlencode_def raw_query_def replace_char_def)
next
  case (2 kv)
  obtain k v where kv: "kv = (k, v)" by (cases kv)
  show ?case
    using unquote_pair [of k "py_str v" "[]"] by (simp add: urlencode_def raw_query_def kv)
next
  case (3 kv kv' d)
  obtain k v where kv: "kv = (k, v)" by (cases kv)
  have "replace_char (CHR ''+'') (CHR '' '') (urlencode (kv # kv' # d))
          = replace_char (CHR ''+'') (CHR '' '') (quote_plus k @ ''='' @ quote_plus (py_str v))
            @ (CHR ''&'' # replace_char (CHR ''+'') (CHR '' '') (urlencode (kv' # d)))"
    by (simp add: urlencode_def kv replace_append replace_cons)
  then have "unquote_to_bytes (replace_char (CHR ''+'') (CHR '' '') (urlencode (kv # kv' # d)))
          = k @ ''='' @ py_str v
            @ unquote_to_bytes (CHR ''&'' # replace_char (CHR ''+'') (CHR '' '') (urlencode (kv' # d)))"
    by (simp only: unquote_pair)
  then show ?case
    using 3 by (simp add: raw_query_def kv unquote_to_bytes_plain del: unquote_to_bytes.simps)
qed

lemma urlencode_ascii: "list_all is_ascii (urlencode d)"
proof (induction d rule: induct_list012)
  case 1
  then show ?case by (simp add: urlencode_def)
next
  case (2 kv)
  then show ?case
    by (cases kv) (simp add: urlencode_def quote_plus_ascii ascii_signs)
next
  case (3 kv kv' d)
  then show ?case
    by (cases kv) (simp add: urlencode_def quote_plus_ascii ascii_signs)
qed

lemma raw_query_ascii: "ascii_params d \<Longrightarrow> list_all is_ascii (raw_query d)"
proof (induction d rule: induct_list012)
  case 1
  then show ?case by (simp add: raw_query_def)
next
  case (2 kv)
  then show ?case
    by (cases kv) (simp add: raw_query_def ascii_params_def ascii_signs)
next
  case (3 kv kv' d)
  then show ?case
    by (cases kv) (simp add: raw_query_def ascii_params_def ascii_signs)
qed

lemma utf8_ascii: "list_all is_ascii s \<Longrightarrow> utf8_encode (utf8_decode s) = s"
  by (induction s) (simp_all add: is_ascii_def utf8_encode_def utf8_encode1_def)

lemma unquote_parts_ascii:
  "list_all is_ascii s \<Longrightarrow> unquote_parts s = utf8_encode (utf8_decode (unquote_to_bytes s))"
proof (cases s)
  case Nil
  then show ?thesis by (simp add: unquote_parts.simps utf8_encode_def)
next
  case (Cons c cs)
  assume a: "list_all is_ascii s"
  then have t: "takeWhile is_ascii s = s" and d: "dropWhile is_ascii s = []"
    by (simp_all add: list_all_iff)
  have "unquote_parts s
          = utf8_encode (utf8_decode (unquote_to_bytes (takeWhile is_ascii s)))
            @ unquote_parts (dropWhile is_ascii s)"
    using a Cons by (subst unquote_parts.simps) simp
  then show ?thesis by (simp add: t d unquote_parts.simps)
qed

lemma unquote_ascii:
  "list_all is_ascii s \<Longrightarrow> list_all is_ascii (unquote_to_bytes s) \<Longrightarrow>
     unquote s = unquote_to_bytes s"
proof (cases "CHR ''%'' \<in> set s")
  case True
  assume "list_all is_ascii s" "list_all is_ascii (unquote_to_bytes s)"
  then show ?thesis using True by (simp add: unquote_def unquote_parts_ascii utf8_ascii)
next
  case False
  then have "unquote_to_bytes (s @ []) = s @ unquote_to_bytes []"
    by (rule unquote_to_bytes_no_percent)
  then show ?thesis using False by (simp add: unquote_def)
qed

text \<open>
  The net effect of quoting the pairs and unquoting the whole: on an endpoint without
  \<^verbatim>\<open>%\<close> and \<^verbatim>\<open>+\<close> and ASCII keys and values, the text that is signed holds the pairs as
  they are.
\<close>

lemma unquote_plus_urlencode:
  assumes "plain_endpoint endpoint" and "ascii_params d" and "sep = ''?'' \<or> sep = ''&''"
  shows "unquote_plus (endpoint @ sep @ urlencode d) = endpoint @ sep @ raw_query d"
proof -
  let ?R = "replace_char (CHR ''+'') (CHR '' '')"
  have sep: "?R sep = sep" "CHR ''%'' \<notin> set sep" "list_all is_ascii sep"
    using assms(3) by (auto simp: replace_char_def ascii_signs)
  have ep: "?R endpoint = endpoint" "CHR ''%'' \<notin> set endpoint" "list_all is_ascii endpoint"
    using assms(1) by (simp_all add: plain_endpoint_def replace_absent)
  have r: "?R (endpoint @ sep @ urlencode d) = (endpoint @ sep) @ ?R (urlencode d)"
    by (simp add: replace_append sep ep)
  have "CHR ''%'' \<notin> set (endpoint @ sep)" using sep ep by simp
  then have u: "unquote_to_bytes (?R (endpoint @ sep @ urlencode d))
             = (endpoint @ sep) @ raw_query d"
    unfolding r
    using unquote_to_bytes_no_percent [of "endpoint @ sep" "?R (urlencode d)"]
      unquote_urlencode [of d]
    by simp
  have "list_all is_ascii (?R (urlencode d))"
    using urlencode_ascii [of d] by (auto simp: replace_char_def list_all_iff is_ascii_def)
  then have a1: "list_all is_ascii (?R (endpoint @ sep @ urlencode d))"
    unfolding r using sep ep by simp
  have a2: "list_all is_ascii (unquote_to_bytes (?R (endpoint @ sep @ urlencode d)))"
    unfolding u using sep ep raw_query_ascii [OF assms(2)] by simp
  show ?thesis
    unfolding unquote_plus_def using unquote_ascii [OF a1 a2] u by simp
qed




section \<open>The query string in the signed message\<close>

lemma endpoint_price_get:
  "urlparse_query L endpoint = Inr q \<Longrightarrow> d \<noteq> [] \<Longrightarrow>
     endpoint_for_signature_price L ''GET'' endpoint (Some d)
       = Inr (unquote_plus (endpoint @ separator q @ urlencode d))"
  by (simp add: endpoint_for_signature_price_def separator_def)

lemma separator_cases: "separator q = ''?'' \<or> separator q = ''&''"
  by (simp add: separator_def)

lemma query_of_x: "urlparse_query example_lib ''/x'' = Inr []"
  by code_simp

text \<open>
  C4, as the code has it. For a GET request with parameters both builders quote the
  pairs and then apply \<^verbatim>\<open>unquote_plus\<close> to the whole text of endpoint, separator and
  quoted pairs. \<^verbatim>\<open>unquote_plus\<close> turns every \<^verbatim>\<open>+\<close> into a space and every \<^verbatim>\<open>%XX\<close> into
  its character, so on an ASCII endpoint without \<^verbatim>\<open>%\<close> and \<^verbatim>\<open>+\<close> and ASCII keys and
  values the signed text holds the pairs as they were given: a space in a value is a
  space in the signed message.
\<close>

theorem C4_space_signed_as_space:
  assumes "urlparse_query L endpoint = Inr q" and "d \<noteq> []"
    and "plain_endpoint endpoint" and "ascii_params d"
  shows "endpoint_for_signature_price L ''GET'' endpoint (Some d)
           = Inr (unquote_plus (endpoint @ separator q @ urlencode d))
         \<and> endpoint_for_signature_order L ''GET'' endpoint (Some d)
           = Inr (unquote_plus (endpoint @ separator q @ urlencode d))
         \<and> unquote_plus (endpoint @ separator q @ urlencode d)
           = endpoint @ separator q @ raw_query d"
proof -
  have 1: "endpoint_for_signature_price L ''GET'' endpoint (Some d)
           = Inr (unquote_plus (endpoint @ separator q @ urlencode d))"
    using assms(1,2) by (rule endpoint_price_get)
  have 2: "unquote_plus (endpoint @ separator q @ urlencode d)
           = endpoint @ separator q @ raw_query d"
    using assms(3,4) separator_cases by (rule unquote_plus_urlencode)
  show ?thesis using 1 2 by (simp add: endpoint_for_signature_same)
qed

theorem C4_space_signed_as_space_witness:
  "endpoint_for_signature_price example_lib ''GET'' ''/x'' (Some [(''q'', SStr ''a b'')])
     = Inr (unquote_plus (''/x'' @ ''?'' @ urlencode [(''q'', SStr ''a b'')]))
   \<and> endpoint_for_signature_order example_lib ''GET'' ''/x'' (Some [(''q'', SStr ''a b'')])
     = Inr (unquote_plus (''/x'' @ ''?'' @ urlencode [(''q'', SStr ''a b'')]))
   \<and> unquote_plus (''/x'' @ ''?'' @ urlencode [(''q'', SStr ''a b'')]) = ''/x?q=a b''"
  using C4_space_signed_as_space [of example_lib "''/x''" "[]" "[(''q'', SStr ''a b'')]"]
  by (simp add: query_of_x plain_endpoint_def ascii_params_def is_ascii_def separator_def
      raw_query_def)

text \<open>
  The claim as stated fails: the value \<^verbatim>\<open>a b\<close> is quoted as \<^verbatim>\<open>a+b\<close>, and the signed message
  holds \<^verbatim>\<open>a b\<close>, with a space and not with a \<^verbatim>\<open>+\<close>.
\<close>

theorem C4_plus_counterexample:
  "urlencode [(''q'', SStr ''a b'')] = ''q=a+b''
   \<and> signature_msg_price example_lib ''GET'' ''/x'' ''1700000000000''
       (Some [(''q'', SStr ''a b'')]) None = Inr ''GET/x?q=a b1700000000000''
   \<and> signature_msg_order example_lib ''GET'' ''/x'' ''1700000000000''
       (Some [(''q'', SStr ''a b'')]) None = Inr ''GET/x?q=a b1700000000000''"
  by code_simp




section \<open>The secret key and the signature\<close>















section \<open>The epoch in the header and in the signed message\<close>

lemma generate_signature_price_Inr:
  "generate_signature_price L secret_key method endpoint t params payload = Inr sg \<Longrightarrow>
     \<exists>efs. endpoint_for_signature_price L method endpoint params = Inr efs
        \<and> sign_hex L secret_key ((method @ efs) @ t @ payload_json payload) = Inr sg"
  by (auto simp: generate_signature_price_def signature_msg_price_def split: sum.splits)

lemma generate_signature_order_Inr:
  "generate_signature_order L secret_key method endpoint t params payload = Inr sg \<Longrightarrow>
     \<exists>efs. endpoint_for_signature_order L method endpoint params = Inr efs
        \<and> sign_hex L secret_key ((method @ efs) @ t @ []) = Inr sg"
  by (auto simp: generate_signature_order_def signature_msg_order_def split: sum.splits)

lemma generate_signature_portfolio_Inr:
  "generate_signature_portfolio L secret_key method endpoint t = Inr sg \<Longrightarrow>
     sign_hex L secret_key ((method @ endpoint) @ t @ []) = Inr sg"
  by (auto simp: generate_signature_portfolio_def signature_msg_portfolio_def split: sum.splits)

lemma epoch_once_price:
  "epoch_used_once L secret_key w
     (snd (send_request_price L api_key secret_key method endpoint params payload w))
     (map_sum (\<lambda>m. m) (\<lambda>efs. method @ efs) (endpoint_for_signature_price L method endpoint params))
     (payload_json payload)"
proof (cases "generate_signature_price L secret_key method endpoint
                (str_int (now_ms w (ticks w))) params payload")
  case (Inl e)
  then show ?thesis
    by (simp add: epoch_used_once_def send_request_price_unsigned)
next
  case (Inr sg)
  then obtain efs where
    "endpoint_for_signature_price L method endpoint params = Inr efs"
    "sign_hex L secret_key ((method @ efs) @ str_int (now_ms w (ticks w)) @ payload_json payload)
       = Inr sg"
    using generate_signature_price_Inr by blast
  then show ?thesis
    using Inr
    by (simp add: epoch_used_once_def send_request_price_signed perform_sent perform_ticks
        signed_with_epoch_def header_def)
qed

lemma epoch_once_order:
  "epoch_used_once L secret_key w
     (snd (send_request_order L api_key secret_key method endpoint params payload w))
     (map_sum (\<lambda>m. m) (\<lambda>efs. method @ efs) (endpoint_for_signature_order L method endpoint params))
     []"
proof (cases "generate_signature_order L secret_key method endpoint
                (str_int (now_ms w (ticks w))) params payload")
  case (Inl e)
  then show ?thesis
    by (simp add: epoch_used_once_def send_request_order_unsigned)
next
  case (Inr sg)
  then obtain efs where
    "endpoint_for_signature_order L method endpoint params = Inr efs"
    "sign_hex L secret_key ((method @ efs) @ str_int (now_ms w (ticks w)) @ []) = Inr sg"
    using generate_signature_order_Inr by blast
  then show ?thesis
    using Inr
    by (simp add: epoch_used_once_def send_request_order_signed perform_sent perform_ticks
        signed_with_epoch_def header_def)
qed

lemma epoch_once_portfolio:
  "epoch_used_once L secret_key w
     (snd (send_request_portfolio L api_key secret_key method endpoint w))
     (Inr (method @ endpoint)) []"
proof (cases "generate_signature_portfolio L secret_key method endpoint
                (str_int (now_ms w (ticks w)))")
  case (Inl e)
  then show ?thesis
    by (simp add: epoch_used_once_def send_request_portfolio_unsigned)
next
  case (Inr sg)
  then have "sign_hex L secret_key ((method @ endpoint) @ str_int (now_ms w (ticks w)) @ [])
       = Inr sg"
    by (rule generate_signature_portfolio_Inr)
  then show ?thesis
    using Inr
    by (simp add: epoch_used_once_def send_request_portfolio_signed perform_sent perform_ticks
        signed_with_epoch_def header_def)
qed

text \<open>
  C3. Each of the three dispatchers reads the clock exactly once per call, and the request
  it issues carries in \<^verbatim>\<open>X-AUTH-EPOCH\<close> the decimal string of that reading and in
  \<^verbatim>\<open>X-AUTH-SIGNATURE\<close> the signature of the message that holds the same string: after the
  method and the endpoint text, and before the payload text in \<^verbatim>\<open>Get_Price.py\<close>.
\<close>

theorem C3_epoch_read_once_and_shared:
  "epoch_used_once L secret_key w
     (snd (send_request_price L api_key secret_key method endpoint params payload w))
     (map_sum (\<lambda>m. m) (\<lambda>efs. method @ efs) (endpoint_for_signature_price L method endpoint params))
     (payload_json payload)
   \<and> epoch_used_once L secret_key w
     (snd (send_request_order L api_key secret_key method endpoint params payload w))
     (map_sum (\<lambda>m. m) (\<lambda>efs. method @ efs) (endpoint_for_signature_order L method endpoint params))
     []
   \<and> epoch_used_once L secret_key w
     (snd (send_request_portfolio L api_key secret_key method endpoint w))
     (Inr (method @ endpoint)) []"
  using epoch_once_price epoch_once_order epoch_once_portfolio by simp

lemma portfolio_run:
  "sent (snd (send_request_portfolio example_lib ''k'' example_key ''GET'' ''/x'' (world_ok JNull)))
   = [\<lparr>rq_method = ''GET'', rq_url = ''https://coinswitch.co/x'',
       rq_headers =
         [(''Content-Type'', ''application/json''), (''X-AUTH-APIKEY'', ''k''),
          (''X-AUTH-SIGNATURE'',
           hexlify (ed25519_sign example_lib example_seed (''GET/x'' @ ''1700000000000''))),
          (''X-AUTH-EPOCH'', ''1700000000000'')],
       rq_params = None, rq_json = None, rq_timeout = 10\<rparr>]"
  by (simp add: send_request_portfolio_signed example_world_clocks example_clock_text
      example_signatures perform_sent BASE_URL_def)

theorem C3_epoch_read_once_and_shared_witness:
  "epoch_used_once example_lib example_key (world_ok JNull)
     (snd (send_request_portfolio example_lib ''k'' example_key ''GET'' ''/x'' (world_ok JNull)))
     (Inr (''GET'' @ ''/x'')) []
   \<and> map (\<lambda>rq. header rq ''X-AUTH-EPOCH'')
       (sent (snd (send_request_portfolio example_lib ''k'' example_key ''GET'' ''/x''
                     (world_ok JNull))))
     = [Some ''1700000000000'']
   \<and> map (\<lambda>rq. header rq ''X-AUTH-SIGNATURE'')
       (sent (snd (send_request_portfolio example_lib ''k'' example_key ''GET'' ''/x''
                     (world_ok JNull))))
     = [Some (hexlify (ed25519_sign example_lib example_seed (''GET/x'' @ ''1700000000000'')))]"
  using C3_epoch_read_once_and_shared [of example_lib example_key "world_ok JNull" "''k''"
      "''GET''" "''/x''" None None]
  by (simp add: portfolio_run header_def)

section \<open>Failures of a request\<close>










section \<open>The price lookup\<close>














end
